theory Spec2Isabelle
  imports Main "HOL-Library.Sublist" "HOL-Library.Multiset"
begin

section \<open>The image build recipe (Dockerfile)\<close>

text \<open>
  The recipe is a list of instructions, in the order of the file. A file system is a
  map from the absolute path of a regular file to its content; the build context (the
  source tree handed to the builder) is the list of its files, each a path relative to
  the context root with its content. A path listed twice counts once, by its first entry.
  Directories are not objects of their own: a directory exists when a file lies below it.
\<close>

type_synonym path = string
type_synonym files = "path \<rightharpoonup> string"
type_synonym build_context = "(path \<times> string) list"

datatype instruction =
    FROM (image_name: string) (image_tag: string)
  | WORKDIR (dir: path)
  | COPY (source: path) (dest: path)
  | RUN (command: string)
  | EXPOSE (port: nat)
  | CMD (argv: "string list")

text \<open>
  The instructions of the file, comments left out:
  \<^verbatim>\<open>
  FROM node:20-slim
  WORKDIR /app
  COPY frontend/package.json .
  RUN npm install
  COPY frontend/. .
  EXPOSE 5173
  CMD ["npm", "run", "dev", "--", "--host", "0.0.0.0"]
  \<close>
\<close>

definition Dockerfile :: "instruction list" where
  "Dockerfile =
    [ FROM ''node'' ''20-slim'',
      WORKDIR ''/app'',
      COPY ''frontend/package.json'' ''.'',
      RUN ''npm install'',
      COPY ''frontend/.'' ''.'',
      EXPOSE 5173,
      CMD [''npm'', ''run'', ''dev'', ''--'', ''--host'', ''0.0.0.0''] ]"

record image =
  files :: files
  workdir :: path
  exposed :: "nat list"
  entrypoint :: "string list"
  cmd :: "string list"

datatype build_error =
    ImageNotFound string string
  | SourceNotFound path
  | CommandFailed string

definition scratch :: image where
  "scratch = \<lparr>files = Map.empty, workdir = ''/'', exposed = [], entrypoint = [], cmd = []\<rparr>"

definition join :: "path \<Rightarrow> path \<Rightarrow> path" where
  "join d n = (if d = ''/'' then d @ n else d @ ''/'' @ n)"

definition resolve :: "path \<Rightarrow> path \<Rightarrow> path" where
  "resolve wd p = (if p = ''.'' then wd else if take 1 p = ''/'' then p else join wd p)"

definition strip_dot :: "path \<Rightarrow> path" where
  "strip_dot p = (case rev p of c # d # r \<Rightarrow> (if c = CHR ''.'' \<and> d = CHR ''/'' then rev r else p) | _ \<Rightarrow> p)"

definition basename :: "path \<Rightarrow> string" where
  "basename p = rev (takeWhile (\<lambda>c. c \<noteq> CHR ''/'') (rev p))"

definition strip_prefix :: "string \<Rightarrow> string \<Rightarrow> string option" where
  "strip_prefix pre s = (if take (length pre) s = pre then Some (drop (length pre) s) else None)"

text \<open>
  \<open>COPY dir/. dest\<close>: every file of the context below \<open>dir\<close> lands below the
  destination directory under its path relative to \<open>dir\<close>, replacing what was there;
  every other file of the image stays.
\<close>

definition copy_dir :: "build_context \<Rightarrow> path \<Rightarrow> path \<Rightarrow> files \<Rightarrow> files" where
  "copy_dir ctx s d fs =
    (\<lambda>q. case strip_prefix (join d []) q of
            None \<Rightarrow> fs q
          | Some rel \<Rightarrow> (case map_of ctx (s @ ''/'' @ rel) of None \<Rightarrow> fs q | Some c \<Rightarrow> Some c))"

definition has_dir :: "build_context \<Rightarrow> path \<Rightarrow> bool" where
  "has_dir ctx s = list_ex (\<lambda>(p, c). strip_prefix (s @ ''/'') p \<noteq> None) ctx"

text \<open>
  \<open>COPY src dest\<close>: the destination is resolved against the working directory and is
  a directory (both COPY lines of the recipe name \<open>.\<close>, the working directory itself).
  A source that is a directory of the context has its content copied; a source that is
  a file of the context is copied under its base name; a source the context does not
  hold fails the build.
\<close>

definition exec_copy :: "build_context \<Rightarrow> path \<Rightarrow> path \<Rightarrow> image \<Rightarrow> build_error + image" where
  "exec_copy ctx src dst img =
    (let s = strip_dot src; d = resolve (workdir img) dst in
     if has_dir ctx s then Inr (img\<lparr>files := copy_dir ctx s d (files img)\<rparr>)
     else case map_of ctx s of
       Some c \<Rightarrow> Inr (img\<lparr>files := (files img)(join d (basename s) \<mapsto> c)\<rparr>)
     | None \<Rightarrow> Inl (SourceNotFound src))"

text \<open>
  What the recipe does not contain is a parameter of the build: \<open>pull\<close> is the image
  registry (no image under a name and tag fails the build), \<open>run\<close> is the execution of
  a shell command in the image under construction (it sees the image with its working
  directory and returns the file system it leaves, or fails with a non-zero exit).
\<close>

type_synonym registry = "string \<Rightarrow> string \<Rightarrow> image option"
type_synonym runner = "string \<Rightarrow> image \<Rightarrow> files option"

fun exec :: "registry \<Rightarrow> runner \<Rightarrow> build_context \<Rightarrow> instruction \<Rightarrow> image \<Rightarrow> build_error + image" where
  "exec pull run ctx (FROM name tag) img =
     (case pull name tag of None \<Rightarrow> Inl (ImageNotFound name tag) | Some b \<Rightarrow> Inr b)"
| "exec pull run ctx (WORKDIR p) img = Inr (img\<lparr>workdir := resolve (workdir img) p\<rparr>)"
| "exec pull run ctx (COPY src dst) img = exec_copy ctx src dst img"
| "exec pull run ctx (RUN c) img =
     (case run c img of None \<Rightarrow> Inl (CommandFailed c) | Some fs \<Rightarrow> Inr (img\<lparr>files := fs\<rparr>))"
| "exec pull run ctx (EXPOSE n) img = Inr (img\<lparr>exposed := exposed img @ [n]\<rparr>)"
| "exec pull run ctx (CMD a) img = Inr (img\<lparr>cmd := a\<rparr>)"

fun steps :: "registry \<Rightarrow> runner \<Rightarrow> build_context \<Rightarrow> instruction list \<Rightarrow> image \<Rightarrow> build_error + image" where
  "steps pull run ctx [] img = Inr img"
| "steps pull run ctx (i # rest) img =
     (case exec pull run ctx i img of Inl e \<Rightarrow> Inl e | Inr img' \<Rightarrow> steps pull run ctx rest img')"

definition build :: "registry \<Rightarrow> runner \<Rightarrow> build_context \<Rightarrow> build_error + image" where
  "build pull run ctx = steps pull run ctx Dockerfile scratch"

text \<open>The source tree with one path removed, and the image after the first \<open>n\<close> steps.\<close>

definition without :: "path \<Rightarrow> build_context \<Rightarrow> build_context" where
  "without x ctx = filter (\<lambda>(p, c). p \<noteq> x) ctx"

definition after :: "nat \<Rightarrow> registry \<Rightarrow> runner \<Rightarrow> build_context \<Rightarrow> build_error + image" where
  "after n pull run ctx = steps pull run ctx (take n Dockerfile) scratch"

text \<open>A build result with one file of the image left out of the comparison.\<close>

definition forget :: "path \<Rightarrow> build_error + image \<Rightarrow> build_error + image" where
  "forget x r = map_sum id (\<lambda>i. i\<lparr>files := (files i)(x := None)\<rparr>) r"

text \<open>
  Reading the recipe as data: the kind of each step, the ports and the startup commands
  it declares, and the fields of a tag (\<open>20-slim\<close>) or the words of a command line.
\<close>

datatype kind = Base | Workdir | Copy | Run | Port | Start

fun kind_of :: "instruction \<Rightarrow> kind" where
  "kind_of (FROM name tag) = Base"
| "kind_of (WORKDIR p) = Workdir"
| "kind_of (COPY src dst) = Copy"
| "kind_of (RUN c) = Run"
| "kind_of (EXPOSE n) = Port"
| "kind_of (CMD a) = Start"

fun exposed_ports :: "instruction list \<Rightarrow> nat list" where
  "exposed_ports [] = []"
| "exposed_ports (EXPOSE n # rest) = n # exposed_ports rest"
| "exposed_ports (i # rest) = exposed_ports rest"

fun start_commands :: "instruction list \<Rightarrow> string list list" where
  "start_commands [] = []"
| "start_commands (CMD a # rest) = a # start_commands rest"
| "start_commands (i # rest) = start_commands rest"

definition split_on :: "char \<Rightarrow> string \<Rightarrow> string list" where
  "split_on sep s = foldr (\<lambda>c acc. if c = sep then [] # acc else (c # hd acc) # tl acc) s [[]]"

text \<open>
  \<open>npm run dev -- args\<close> hands the words after \<open>--\<close> to the script \<open>dev\<close>.
\<close>

definition script_args :: "string list \<Rightarrow> string list" where
  "script_args a = drop 1 (dropWhile (\<lambda>w. w \<noteq> ''--'') a)"

text \<open>
  A registry, a command execution and a source tree to run the build on: the registry
  holds the base image, \<open>npm install\<close> writes a lock file of its own into the working
  directory, and the tree has a manifest, a lock file and one more source file.
\<close>

definition example_registry :: registry where
  "example_registry name tag =
    (if name = ''node'' \<and> tag = ''20-slim''
     then Some (scratch\<lparr>entrypoint := [''docker-entrypoint.sh''], cmd := [''node'']\<rparr>)
     else None)"

definition example_runner :: runner where
  "example_runner c img =
    (if c = ''npm install''
     then Some ((files img)(join (workdir img) ''package-lock.json'' \<mapsto> ''generated lock''))
     else None)"

definition example_tree :: build_context where
  "example_tree =
    [ (''frontend/package.json'', ''manifest''),
      (''frontend/package-lock.json'', ''host lock''),
      (''frontend/vite.config.js'', ''config'') ]"

section \<open>The dev-server configuration (vite.config.js)\<close>

text \<open>
  The file exports one configuration object:
  \<^verbatim>\<open>
  export default defineConfig({
    plugins: [react()],
    server: {
      proxy: {
        '/transcribe': 'http://localhost:8000',
        '/process_content': 'http://localhost:8000'
      }
    }
  })
  \<close>
  \<open>server.proxy\<close> is an object literal, read here as the list of its entries in the
  order they are written: the key is a path prefix, the value the target origin. The
  plugin is kept by its name.
\<close>

record server_options =
  proxy :: "(string \<times> string) list"

record user_config =
  plugins :: "string list"
  server :: server_options

definition config :: user_config where
  "config =
    \<lparr> plugins = [''react''],
      server = \<lparr> proxy =
        [ (''/transcribe'', ''http://localhost:8000''),
          (''/process_content'', ''http://localhost:8000'') ] \<rparr> \<rparr>"

text \<open>
  Modelled from the spec: the dev server's side of the proxy, which is not part of the
  repository (the repository holds the rule table only). A request has a method, a path,
  a query string, headers and a body; it is either forwarded to an origin, as the
  outgoing request, or falls through to the dev server's own handling.
\<close>

record request =
  req_method :: string
  req_path :: string
  req_query :: string
  req_headers :: "string \<rightharpoonup> string"
  req_body :: string

datatype handling = Forward string request | Fallthrough

definition host_of :: "string \<Rightarrow> string" where
  "host_of origin =
    (case strip_prefix ''http://'' origin of
       Some h \<Rightarrow> h
     | None \<Rightarrow> (case strip_prefix ''https://'' origin of Some h \<Rightarrow> h | None \<Rightarrow> origin))"

text \<open>
  Modelled from the spec: the dev server's handling of a request against the rule table.
  Following the spec, the first entry whose key is a prefix of the request path decides:
  the request is forwarded to that entry's origin with path, query string, method,
  headers and body as they came, except the \<open>Host\<close> header, which is set to the host
  of the origin. With no such entry the request falls through.
\<close>

definition dispatch :: "(string \<times> string) list \<Rightarrow> request \<Rightarrow> handling" where
  "dispatch table r =
    (case find (\<lambda>(k, t). prefix k (req_path r)) table of
       None \<Rightarrow> Fallthrough
     | Some (k, t) \<Rightarrow> Forward t (r\<lparr>req_headers := (req_headers r)(''Host'' \<mapsto> host_of t)\<rparr>))"

text \<open>The entries of a table that match a path: those whose key is a prefix of it.\<close>

definition matching :: "(string \<times> string) list \<Rightarrow> string \<Rightarrow> (string \<times> string) list" where
  "matching table p = filter (\<lambda>(k, t). prefix k p) table"

definition example_request :: request where
  "example_request =
    \<lparr> req_method = ''POST'', req_path = ''/transcribe'', req_query = ''?lang=en'',
      req_headers = [''Host'' \<mapsto> ''localhost:5173'', ''Content-Type'' \<mapsto> ''application/json''],
      req_body = ''audio'' \<rparr>"

section \<open>Properties of the image build\<close>

lemma map_of_without: "map_of (without x ctx) p = (if p = x then None else map_of ctx p)"
  by (induction ctx) (auto simp: without_def)

lemma without_agree:
  "without x ctx = without x ctx' \<Longrightarrow> p \<noteq> x \<Longrightarrow> map_of ctx p = map_of ctx' p"
  by (metis map_of_without)

lemma has_dir_iff:
  "has_dir ctx s \<longleftrightarrow> (\<exists>p. map_of ctx p \<noteq> None \<and> strip_prefix (s @ ''/'') p \<noteq> None)"
proof -
  have "has_dir ctx s \<longleftrightarrow> (\<exists>p \<in> fst ` set ctx. strip_prefix (s @ ''/'') p \<noteq> None)"
    by (force simp: has_dir_def list_ex_iff)
  also have "\<dots> \<longleftrightarrow> (\<exists>p. map_of ctx p \<noteq> None \<and> strip_prefix (s @ ''/'') p \<noteq> None)"
    by (metis map_of_eq_None_iff)
  finally show ?thesis .
qed

lemma strip_prefix_Some: "strip_prefix pre s = Some r \<longleftrightarrow> s = pre @ r"
  by (auto simp: strip_prefix_def) (metis append_take_drop_id)

text \<open>A COPY whose source is neither the path \<open>x\<close> nor a directory above it does not read \<open>x\<close>.\<close>

lemma exec_copy_without:
  assumes eq: "without x ctx = without x ctx'"
    and nofile: "strip_dot src \<noteq> x"
    and nodir: "strip_prefix (strip_dot src @ ''/'') x = None"
  shows "exec_copy ctx src dst img = exec_copy ctx' src dst img"
proof -
  let ?s = "strip_dot src"
  have below: "map_of ctx p = map_of ctx' p" if "strip_prefix (?s @ ''/'') p \<noteq> None" for p
    using that nodir without_agree [OF eq] by metis
  have "has_dir ctx ?s = has_dir ctx' ?s"
    unfolding has_dir_iff using below by metis
  moreover have "map_of ctx ?s = map_of ctx' ?s"
    using without_agree [OF eq nofile] .
  moreover have "copy_dir ctx ?s d fs = copy_dir ctx' ?s d fs" for d fs
  proof
    fix q
    show "copy_dir ctx ?s d fs q = copy_dir ctx' ?s d fs q"
    proof (cases "strip_prefix (join d []) q")
      case None
      then show ?thesis by (simp add: copy_dir_def)
    next
      case (Some rel)
      have "map_of ctx (?s @ ''/'' @ rel) = map_of ctx' (?s @ ''/'' @ rel)"
        using below [of "?s @ ''/'' @ rel"] by (simp add: strip_prefix_def)
      with Some show ?thesis by (simp add: copy_dir_def)
    qed
  qed
  ultimately show ?thesis
    by (simp add: exec_copy_def Let_def)
qed

lemma exec_copy_config:
  "exec_copy ctx src dst img = Inr i \<Longrightarrow>
     workdir i = workdir img \<and> exposed i = exposed img \<and> entrypoint i = entrypoint img \<and> cmd i = cmd img"
  by (auto simp: exec_copy_def Let_def split: if_splits option.splits)

lemma manifest_needs_frontend:
  "exec_copy ctx ''frontend/package.json'' dst img = Inr i \<Longrightarrow> has_dir ctx ''frontend''"
proof -
  assume ok: "exec_copy ctx ''frontend/package.json'' dst img = Inr i"
  have sd: "strip_dot ''frontend/package.json'' = ''frontend/package.json''"
    by (simp add: strip_dot_def)
  show ?thesis
  proof (cases "has_dir ctx ''frontend/package.json''")
    case True
    then obtain p where p: "map_of ctx p \<noteq> None" "strip_prefix (''frontend/package.json'' @ ''/'') p \<noteq> None"
      unfolding has_dir_iff by blast
    then obtain r where "p = ''frontend/package.json/'' @ r"
      by (auto simp: strip_prefix_Some)
    then have "strip_prefix (''frontend'' @ ''/'') p \<noteq> None"
      by (simp add: strip_prefix_def)
    with p(1) show ?thesis unfolding has_dir_iff by blast
  next
    case False
    with ok sd have "map_of ctx ''frontend/package.json'' \<noteq> None"
      by (auto simp: exec_copy_def Let_def split: option.splits)
    moreover have "strip_prefix (''frontend'' @ ''/'') ''frontend/package.json'' \<noteq> None"
      by (simp add: strip_prefix_def)
    ultimately show ?thesis unfolding has_dir_iff by blast
  qed
qed

lemma copy_source:
  "has_dir ctx ''frontend'' \<Longrightarrow> workdir img = ''/app'' \<Longrightarrow>
     exec_copy ctx ''frontend/.'' ''.'' img =
       Inr (img\<lparr>files := copy_dir ctx ''frontend'' ''/app'' (files img)\<rparr>)"
  by (simp add: exec_copy_def strip_dot_def resolve_def)

lemma build_eq:
  "build pull run ctx =
    (case pull ''node'' ''20-slim'' of
       None \<Rightarrow> Inl (ImageNotFound ''node'' ''20-slim'')
     | Some b \<Rightarrow>
        (case exec_copy ctx ''frontend/package.json'' ''.'' (b\<lparr>workdir := ''/app''\<rparr>) of
           Inl e \<Rightarrow> Inl e
         | Inr i3 \<Rightarrow>
            (case run ''npm install'' i3 of
               None \<Rightarrow> Inl (CommandFailed ''npm install'')
             | Some fs \<Rightarrow>
                (case exec_copy ctx ''frontend/.'' ''.'' (i3\<lparr>files := fs\<rparr>) of
                   Inl e \<Rightarrow> Inl e
                 | Inr i5 \<Rightarrow>
                    Inr (i5\<lparr>exposed := exposed i5 @ [5173],
                            cmd := [''npm'', ''run'', ''dev'', ''--'', ''--host'', ''0.0.0.0'']\<rparr>)))))"
  by (simp add: build_def Dockerfile_def resolve_def split: option.splits sum.splits)

lemma after4_eq:
  "after 4 pull run ctx =
    (case pull ''node'' ''20-slim'' of
       None \<Rightarrow> Inl (ImageNotFound ''node'' ''20-slim'')
     | Some b \<Rightarrow>
        (case exec_copy ctx ''frontend/package.json'' ''.'' (b\<lparr>workdir := ''/app''\<rparr>) of
           Inl e \<Rightarrow> Inl e
         | Inr i3 \<Rightarrow>
            (case run ''npm install'' i3 of
               None \<Rightarrow> Inl (CommandFailed ''npm install'')
             | Some fs \<Rightarrow> Inr (i3\<lparr>files := fs\<rparr>))))"
  by (simp add: after_def Dockerfile_def resolve_def split: option.splits sum.splits)

lemma build_Inr:
  "build pull run ctx = Inr img \<longleftrightarrow>
    (\<exists>b i3 fs. pull ''node'' ''20-slim'' = Some b \<and>
       exec_copy ctx ''frontend/package.json'' ''.'' (b\<lparr>workdir := ''/app''\<rparr>) = Inr i3 \<and>
       run ''npm install'' i3 = Some fs \<and>
       img = i3\<lparr>files := copy_dir ctx ''frontend'' ''/app'' fs, exposed := exposed b @ [5173],
                 cmd := [''npm'', ''run'', ''dev'', ''--'', ''--host'', ''0.0.0.0'']\<rparr>)"
  (is "?L = ?R")
proof
  assume ?L
  then obtain b i3 fs i5 where
    b: "pull ''node'' ''20-slim'' = Some b" and
    i3: "exec_copy ctx ''frontend/package.json'' ''.'' (b\<lparr>workdir := ''/app''\<rparr>) = Inr i3" and
    fs: "run ''npm install'' i3 = Some fs" and
    i5: "exec_copy ctx ''frontend/.'' ''.'' (i3\<lparr>files := fs\<rparr>) = Inr i5" and
    img: "img = i5\<lparr>exposed := exposed i5 @ [5173],
            cmd := [''npm'', ''run'', ''dev'', ''--'', ''--host'', ''0.0.0.0'']\<rparr>"
    unfolding build_eq by (auto split: option.splits sum.splits)
  have cfg: "workdir i3 = ''/app''" "exposed i3 = exposed b"
    using exec_copy_config [OF i3] by simp_all
  have "i5 = i3\<lparr>files := copy_dir ctx ''frontend'' ''/app'' fs\<rparr>"
    using i5 copy_source [OF manifest_needs_frontend [OF i3], of "i3\<lparr>files := fs\<rparr>"] cfg by simp
  with img cfg b i3 fs show ?R by simp
next
  assume ?R
  then obtain b i3 fs where
    b: "pull ''node'' ''20-slim'' = Some b" and
    i3: "exec_copy ctx ''frontend/package.json'' ''.'' (b\<lparr>workdir := ''/app''\<rparr>) = Inr i3" and
    fs: "run ''npm install'' i3 = Some fs" and
    img: "img = i3\<lparr>files := copy_dir ctx ''frontend'' ''/app'' fs, exposed := exposed b @ [5173],
                 cmd := [''npm'', ''run'', ''dev'', ''--'', ''--host'', ''0.0.0.0'']\<rparr>"
    by blast
  have cfg: "workdir i3 = ''/app''" "exposed i3 = exposed b"
    using exec_copy_config [OF i3] by simp_all
  show ?L
    unfolding build_eq
    using b i3 fs img cfg copy_source [OF manifest_needs_frontend [OF i3], of "i3\<lparr>files := fs\<rparr>"]
    by simp
qed


lemma install_isolated:
  "after 4 pull run (without ''frontend/package-lock.json'' ctx) = after 4 pull run ctx"
proof -
  have "without ''frontend/package-lock.json'' (without ''frontend/package-lock.json'' ctx)
      = without ''frontend/package-lock.json'' ctx"
    by (simp add: without_def)
  then have "exec_copy (without ''frontend/package-lock.json'' ctx) ''frontend/package.json'' ''.'' img
      = exec_copy ctx ''frontend/package.json'' ''.'' img" for img
    by (rule exec_copy_without) (simp_all add: strip_dot_def strip_prefix_def)
  then show ?thesis
    by (simp add: after4_eq cong: option.case_cong)
qed

lemma copy_dir_at:
  "copy_dir ctx ''frontend'' ''/app'' fs (''/app/'' @ rel)
     = (case map_of ctx (''frontend/'' @ rel) of None \<Rightarrow> fs (''/app/'' @ rel) | Some c \<Rightarrow> Some c)"
  by (simp add: copy_dir_def join_def strip_prefix_def cong: option.case_cong)

lemma copy_dir_forget:
  assumes eq: "without ''frontend/package-lock.json'' ctx = without ''frontend/package-lock.json'' ctx'"
  shows "(copy_dir ctx ''frontend'' ''/app'' fs)(''/app/package-lock.json'' := None)
       = (copy_dir ctx' ''frontend'' ''/app'' fs)(''/app/package-lock.json'' := None)"
proof
  fix q
  show "((copy_dir ctx ''frontend'' ''/app'' fs)(''/app/package-lock.json'' := None)) q
      = ((copy_dir ctx' ''frontend'' ''/app'' fs)(''/app/package-lock.json'' := None)) q"
  proof (cases "strip_prefix ''/app/'' q")
    case None
    then show ?thesis by (simp add: copy_dir_def join_def)
  next
    case (Some rel)
    then have q: "q = ''/app/'' @ rel" by (simp add: strip_prefix_Some)
    show ?thesis
    proof (cases "rel = ''package-lock.json''")
      case True
      with q show ?thesis by simp
    next
      case False
      then have "map_of ctx (''frontend/'' @ rel) = map_of ctx' (''frontend/'' @ rel)"
        using without_agree [OF eq] by simp
      then have "copy_dir ctx ''frontend'' ''/app'' fs q = copy_dir ctx' ''frontend'' ''/app'' fs q"
        unfolding q copy_dir_at by simp
      then show ?thesis by simp
    qed
  qed
qed

lemma example_base:
  "example_registry ''node'' ''20-slim''
     = Some (scratch\<lparr>entrypoint := [''docker-entrypoint.sh''], cmd := [''node'']\<rparr>)"
  by (simp add: example_registry_def)

lemma example_build:
  "\<exists>img. build example_registry example_runner example_tree = Inr img"
  unfolding build_Inr
  by (simp add: example_base exec_copy_def has_dir_def strip_dot_def strip_prefix_def
      example_tree_def example_runner_def)

lemma build_closed:
  "build pull run ctx =
    (case pull ''node'' ''20-slim'' of
       None \<Rightarrow> Inl (ImageNotFound ''node'' ''20-slim'')
     | Some b \<Rightarrow>
        (case exec_copy ctx ''frontend/package.json'' ''.'' (b\<lparr>workdir := ''/app''\<rparr>) of
           Inl e \<Rightarrow> Inl e
         | Inr i3 \<Rightarrow>
            (case run ''npm install'' i3 of
               None \<Rightarrow> Inl (CommandFailed ''npm install'')
             | Some fs \<Rightarrow>
                Inr (i3\<lparr>files := copy_dir ctx ''frontend'' ''/app'' fs,
                        exposed := exposed b @ [5173],
                        cmd := [''npm'', ''run'', ''dev'', ''--'', ''--host'', ''0.0.0.0'']\<rparr>))))"
proof (cases "pull ''node'' ''20-slim''")
  case None
  then show ?thesis by (simp add: build_eq)
next
  case (Some b)
  show ?thesis
  proof (cases "exec_copy ctx ''frontend/package.json'' ''.'' (b\<lparr>workdir := ''/app''\<rparr>)")
    case (Inl e)
    with Some show ?thesis by (simp add: build_eq)
  next
    case (Inr i3)
    have cfg: "workdir i3 = ''/app''" "exposed i3 = exposed b"
      using exec_copy_config [OF Inr] by simp_all
    have "exec_copy ctx ''frontend/.'' ''.'' (i3\<lparr>files := fs\<rparr>)
        = Inr (i3\<lparr>files := copy_dir ctx ''frontend'' ''/app'' fs\<rparr>)" for fs
      using copy_source [OF manifest_needs_frontend [OF Inr], of "i3\<lparr>files := fs\<rparr>"] cfg by simp
    with Some Inr cfg show ?thesis
      by (simp add: build_eq split: option.splits)
  qed
qed

lemma example_tree_without:
  "without ''frontend/package-lock.json'' example_tree
     = [(''frontend/package.json'', ''manifest''), (''frontend/vite.config.js'', ''config'')]"
  by (simp add: without_def example_tree_def)

lemma example_lock_copied:
  "build example_registry example_runner example_tree = Inr img \<Longrightarrow>
     files img ''/app/package-lock.json'' = Some ''host lock''"
  unfolding build_Inr
  by (auto simp: copy_dir_def join_def strip_prefix_def example_tree_def)

lemma example_lock_generated:
  "build example_registry example_runner (without ''frontend/package-lock.json'' example_tree) = Inr img \<Longrightarrow>
     files img ''/app/package-lock.json'' = Some ''generated lock''"
  unfolding build_Inr example_tree_without
  by (auto simp: example_base copy_dir_def join_def strip_prefix_def exec_copy_def has_dir_def
      strip_dot_def resolve_def basename_def example_runner_def scratch_def)

text \<open>
  Claim C4. The recipe has exactly seven steps, in this order: the base image
  \<open>node\<close> pinned to major version 20 in its slim variant; the working directory; a copy
  of the dependency manifest \<open>package.json\<close> alone, whose result is the same with the
  lock file taken out of the source tree; the dependency installation \<open>npm install\<close>
  with no \<open>--no-optional\<close> flag; the copy of the application source \<open>frontend/.\<close>
  to the same destination; the declaration of port 5173; and the startup command, which
  hands \<open>--host 0.0.0.0\<close> to the dev-server script.
\<close>

theorem recipe_steps:
  "map kind_of Dockerfile = [Base, Workdir, Copy, Run, Copy, Port, Start]
   \<and> image_name (Dockerfile ! 0) = ''node''
   \<and> split_on CHR ''-'' (image_tag (Dockerfile ! 0)) = [''20'', ''slim'']
   \<and> dir (Dockerfile ! 1) = ''/app''
   \<and> source (Dockerfile ! 2) = ''frontend/package.json''
   \<and> basename (source (Dockerfile ! 2)) = ''package.json''
   \<and> exec pull run ctx (Dockerfile ! 2) img
       = exec pull run (without ''frontend/package-lock.json'' ctx) (Dockerfile ! 2) img
   \<and> split_on CHR '' '' (command (Dockerfile ! 3)) = [''npm'', ''install'']
   \<and> ''--no-optional'' \<notin> set (split_on CHR '' '' (command (Dockerfile ! 3)))
   \<and> source (Dockerfile ! 4) = ''frontend/.''
   \<and> dest (Dockerfile ! 4) = dest (Dockerfile ! 2)
   \<and> port (Dockerfile ! 5) = 5173
   \<and> script_args (argv (Dockerfile ! 6)) = [''--host'', ''0.0.0.0'']"
proof -
  have "without ''frontend/package-lock.json'' ctx
      = without ''frontend/package-lock.json'' (without ''frontend/package-lock.json'' ctx)"
    by (simp add: without_def)
  then have "exec_copy ctx ''frontend/package.json'' ''.'' img
      = exec_copy (without ''frontend/package-lock.json'' ctx) ''frontend/package.json'' ''.'' img"
    by (rule exec_copy_without) (simp_all add: strip_dot_def strip_prefix_def)
  then show ?thesis
    by (simp add: Dockerfile_def split_on_def basename_def script_args_def)
qed

text \<open>
  Claim C9. The recipe declares exactly one port, 5173. A built image exposes the
  ports of its base image followed by 5173, so with a base image that exposes none
  (as in the example registry) the image exposes 5173 alone.
\<close>

theorem listen_port:
  "exposed_ports Dockerfile = [5173]
   \<and> (build pull run ctx = Inr img \<longrightarrow>
        (\<exists>b. pull ''node'' ''20-slim'' = Some b \<and> exposed img = exposed b @ [5173]))"
proof -
  have "exposed_ports Dockerfile = [5173]"
    by (simp add: Dockerfile_def)
  moreover have "\<exists>b. pull ''node'' ''20-slim'' = Some b \<and> exposed img = exposed b @ [5173]"
    if "build pull run ctx = Inr img"
    using that unfolding build_Inr by auto
  ultimately show ?thesis by blast
qed

text \<open>
  The example build exposes exactly port 5173.
\<close>

theorem listen_port_witness:
  "\<exists>img. build example_registry example_runner example_tree = Inr img \<and> exposed img = [5173]"
proof -
  obtain img where img: "build example_registry example_runner example_tree = Inr img"
    using example_build by blast
  with listen_port [of example_registry example_runner example_tree img] show ?thesis
    by (auto simp: example_base scratch_def)
qed

text \<open>
  The startup command of the recipe. The recipe declares exactly one, in exec form:
  \<open>npm run dev -- --host 0.0.0.0\<close>. It names the script \<open>dev\<close> and hands it the
  arguments \<open>--host 0.0.0.0\<close>, and every built image carries it as its command. The
  entry point of the image is the base image's, which the recipe does not set; what runs
  when a container starts, and for how long, is not part of the recipe.
\<close>

lemma startup_command:
  "start_commands Dockerfile = [[''npm'', ''run'', ''dev'', ''--'', ''--host'', ''0.0.0.0'']]
   \<and> map script_args (start_commands Dockerfile) = [[''--host'', ''0.0.0.0'']]
   \<and> (build pull run ctx = Inr img \<longrightarrow>
        cmd img = [''npm'', ''run'', ''dev'', ''--'', ''--host'', ''0.0.0.0''])"
proof -
  have "cmd img = [''npm'', ''run'', ''dev'', ''--'', ''--host'', ''0.0.0.0'']"
    if "build pull run ctx = Inr img"
    using that unfolding build_Inr by auto
  then show ?thesis
    by (simp add: Dockerfile_def script_args_def)
qed

text \<open>
  The example build carries the startup command.
\<close>

lemma startup_command_example:
  "\<exists>img. build example_registry example_runner example_tree = Inr img
     \<and> cmd img = [''npm'', ''run'', ''dev'', ''--'', ''--host'', ''0.0.0.0'']"
proof -
  obtain img where img: "build example_registry example_runner example_tree = Inr img"
    using example_build by blast
  with startup_command [of example_registry example_runner example_tree img] show ?thesis
    by blast
qed

text \<open>
  Claim C6. In every image the build produces, each file of the source tree below
  \<open>frontend/\<close> stands below \<open>/app/\<close> under the same relative path with the content
  of the tree: the lock file \<open>package-lock.json\<close> when the tree has one, and
  \<open>package.json\<close> again, over whatever step 3 and the installation left there. The
  image after the first four steps (up to and including the installation) is the same
  with the lock file taken out of the tree.
\<close>

theorem source_copy_takes_lock_file:
  assumes "build pull run ctx = Inr img"
  shows "(\<forall>rel c. map_of ctx (''frontend/'' @ rel) = Some c \<longrightarrow> files img (''/app/'' @ rel) = Some c)
     \<and> (\<forall>c. map_of ctx ''frontend/package-lock.json'' = Some c \<longrightarrow>
            files img ''/app/package-lock.json'' = Some c)
     \<and> (\<forall>c. map_of ctx ''frontend/package.json'' = Some c \<longrightarrow>
            files img ''/app/package.json'' = Some c)
     \<and> after 4 pull run (without ''frontend/package-lock.json'' ctx) = after 4 pull run ctx"
proof -
  from assms obtain fs where f: "files img = copy_dir ctx ''frontend'' ''/app'' fs"
    unfolding build_Inr by auto
  have all: "files img (''/app/'' @ rel) = Some c" if "map_of ctx (''frontend/'' @ rel) = Some c" for rel c
    unfolding f copy_dir_at using that by simp
  have "files img ''/app/package-lock.json'' = Some c"
    if "map_of ctx ''frontend/package-lock.json'' = Some c" for c
    using all [of "''package-lock.json''" c] that by simp
  moreover have "files img ''/app/package.json'' = Some c"
    if "map_of ctx ''frontend/package.json'' = Some c" for c
    using all [of "''package.json''" c] that by simp
  ultimately show ?thesis
    using all install_isolated by blast
qed

text \<open>
  The example build holds the lock file, the manifest and the other source file of the
  tree.
\<close>

theorem source_copy_takes_lock_file_witness:
  "\<exists>img. build example_registry example_runner example_tree = Inr img
     \<and> files img ''/app/package-lock.json'' = Some ''host lock''
     \<and> files img ''/app/package.json'' = Some ''manifest''
     \<and> files img (''/app/'' @ ''vite.config.js'') = Some ''config''"
proof -
  obtain img where img: "build example_registry example_runner example_tree = Inr img"
    using example_build by blast
  have "map_of example_tree ''frontend/package-lock.json'' = Some ''host lock''"
    "map_of example_tree ''frontend/package.json'' = Some ''manifest''"
    "map_of example_tree (''frontend/'' @ ''vite.config.js'') = Some ''config''"
    by (simp_all add: example_tree_def)
  with source_copy_takes_lock_file [OF img] img show ?thesis by simp
qed

lemma example_build_fresh:
  "\<exists>img. build example_registry example_runner
           (without ''frontend/package-lock.json'' example_tree) = Inr img"
  unfolding build_Inr example_tree_without
  by (simp add: example_base exec_copy_def has_dir_def strip_dot_def strip_prefix_def
      example_runner_def)

text \<open>
  Claim C2. The claim says that two source trees that differ only in the lock file build
  the same image, the lock file never being copied; the comment above step 3 of the
  recipe says the same (``We DO NOT copy package-lock.json''). The recipe does otherwise.
  The example tree and the same tree without its lock file differ only in the lock file,
  and their images differ: with the lock file in the tree, step 5
  (\<open>COPY frontend/. .\<close>) puts the tree's lock file at \<open>/app/package-lock.json\<close>,
  over the one the installation wrote; without it, the installation's lock file stays.
\<close>

theorem lock_file_changes_image:
  "without ''frontend/package-lock.json'' example_tree
     = without ''frontend/package-lock.json'' (without ''frontend/package-lock.json'' example_tree)
   \<and> map_sum id (\<lambda>i. files i ''/app/package-lock.json'')
         (build example_registry example_runner example_tree)
     = Inr (Some ''host lock'')
   \<and> map_sum id (\<lambda>i. files i ''/app/package-lock.json'')
         (build example_registry example_runner
            (without ''frontend/package-lock.json'' example_tree))
     = Inr (Some ''generated lock'')
   \<and> build example_registry example_runner example_tree
     \<noteq> build example_registry example_runner (without ''frontend/package-lock.json'' example_tree)"
proof -
  obtain img where img: "build example_registry example_runner example_tree = Inr img"
    using example_build by blast
  obtain img' where img': "build example_registry example_runner
      (without ''frontend/package-lock.json'' example_tree) = Inr img'"
    using example_build_fresh by blast
  have host: "files img ''/app/package-lock.json'' = Some ''host lock''"
    using example_lock_copied [OF img] .
  have fresh: "files img' ''/app/package-lock.json'' = Some ''generated lock''"
    using example_lock_generated [OF img'] .
  have "img \<noteq> img'"
    using host fresh by auto
  moreover have "without ''frontend/package-lock.json'' example_tree
     = without ''frontend/package-lock.json'' (without ''frontend/package-lock.json'' example_tree)"
    by (simp add: without_def)
  ultimately show ?thesis
    unfolding img img' using host fresh by simp
qed

text \<open>
  How far the lock file reaches. For two source trees that differ only in the content or
  presence of \<open>frontend/package-lock.json\<close>, with the same registry and the same
  command execution: the image after the first four steps (base image, working
  directory, manifest copy, installation) is the same, both builds fail alike or both
  succeed, and the two images are equal once the file \<open>/app/package-lock.json\<close> is
  left out of the comparison.
\<close>

lemma install_ignores_lock_file:
  assumes "without ''frontend/package-lock.json'' ctx = without ''frontend/package-lock.json'' ctx'"
  shows "after 4 pull run ctx = after 4 pull run ctx'
     \<and> forget ''/app/package-lock.json'' (build pull run ctx)
       = forget ''/app/package-lock.json'' (build pull run ctx')"
proof
  show a4: "after 4 pull run ctx = after 4 pull run ctx'"
    using install_isolated [of pull run ctx] install_isolated [of pull run ctx'] assms by simp
  have m3: "exec_copy ctx ''frontend/package.json'' ''.'' img
          = exec_copy ctx' ''frontend/package.json'' ''.'' img" for img
    using assms by (rule exec_copy_without) (simp_all add: strip_dot_def strip_prefix_def)
  have fwd: "\<exists>img'. build pull run c' = Inr img' \<and>
        img'\<lparr>files := (files img')(''/app/package-lock.json'' := None)\<rparr>
      = img\<lparr>files := (files img)(''/app/package-lock.json'' := None)\<rparr>"
    if ok: "build pull run c = Inr img"
      and eq: "without ''frontend/package-lock.json'' c = without ''frontend/package-lock.json'' c'"
    for c c' img
  proof -
    have m: "exec_copy c ''frontend/package.json'' ''.'' i
           = exec_copy c' ''frontend/package.json'' ''.'' i" for i
      using eq by (rule exec_copy_without) (simp_all add: strip_dot_def strip_prefix_def)
    from ok obtain b i3 fs where
      b: "pull ''node'' ''20-slim'' = Some b" and
      i3: "exec_copy c ''frontend/package.json'' ''.'' (b\<lparr>workdir := ''/app''\<rparr>) = Inr i3" and
      fs: "run ''npm install'' i3 = Some fs" and
      img: "img = i3\<lparr>files := copy_dir c ''frontend'' ''/app'' fs, exposed := exposed b @ [5173],
                 cmd := [''npm'', ''run'', ''dev'', ''--'', ''--host'', ''0.0.0.0'']\<rparr>"
      unfolding build_Inr by blast
    let ?img' = "i3\<lparr>files := copy_dir c' ''frontend'' ''/app'' fs, exposed := exposed b @ [5173],
                 cmd := [''npm'', ''run'', ''dev'', ''--'', ''--host'', ''0.0.0.0'']\<rparr>"
    have "build pull run c' = Inr ?img'"
      unfolding build_Inr using b i3 fs m by auto
    moreover have "?img'\<lparr>files := (files ?img')(''/app/package-lock.json'' := None)\<rparr>
        = img\<lparr>files := (files img)(''/app/package-lock.json'' := None)\<rparr>"
      using copy_dir_forget [OF eq, of fs] img by simp
    ultimately show ?thesis by blast
  qed
  show "forget ''/app/package-lock.json'' (build pull run ctx)
      = forget ''/app/package-lock.json'' (build pull run ctx')"
  proof (cases "build pull run ctx")
    case (Inr img)
    from fwd [OF Inr assms] Inr show ?thesis
      by (auto simp: forget_def)
  next
    case (Inl e)
    show ?thesis
    proof (cases "build pull run ctx'")
      case (Inr img')
      from fwd [OF Inr assms [symmetric]] Inl show ?thesis by auto
    next
      case Inl': (Inl e')
      have "e = e'"
        using Inl Inl' m3 unfolding build_closed
        by (auto split: option.splits sum.splits)
      with Inl Inl' show ?thesis by (simp add: forget_def)
    qed
  qed
qed

text \<open>
  The example tree and the example tree without its lock file.
\<close>

lemma install_ignores_lock_file_example:
  "without ''frontend/package-lock.json'' example_tree
     = without ''frontend/package-lock.json'' (without ''frontend/package-lock.json'' example_tree)
   \<and> after 4 example_registry example_runner example_tree
     = after 4 example_registry example_runner (without ''frontend/package-lock.json'' example_tree)
   \<and> forget ''/app/package-lock.json'' (build example_registry example_runner example_tree)
     = forget ''/app/package-lock.json''
         (build example_registry example_runner (without ''frontend/package-lock.json'' example_tree))"
proof -
  have h: "without ''frontend/package-lock.json'' example_tree
     = without ''frontend/package-lock.json'' (without ''frontend/package-lock.json'' example_tree)"
    by (simp add: without_def)
  from install_ignores_lock_file [OF h] h show ?thesis by blast
qed

section \<open>Properties of the proxy rule table\<close>

lemma dispatch_config:
  "dispatch (proxy (server config)) r =
    (if prefix ''/transcribe'' (req_path r) \<or> prefix ''/process_content'' (req_path r)
     then Forward ''http://localhost:8000''
            (r\<lparr>req_headers := (req_headers r)(''Host'' \<mapsto> ''localhost:8000'')\<rparr>)
     else Fallthrough)"
  by (simp add: dispatch_def config_def host_of_def strip_prefix_def)

lemma dispatch_config_rev:
  "dispatch (rev (proxy (server config))) r = dispatch (proxy (server config)) r"
  unfolding dispatch_config
  by (simp add: dispatch_def config_def host_of_def strip_prefix_def)

lemma keys_apart:
  "\<not> (prefix ''/transcribe'' p \<and> prefix ''/process_content'' p)"
proof
  assume "prefix ''/transcribe'' p \<and> prefix ''/process_content'' p"
  then obtain a b where "p = ''/transcribe'' @ a" "p = ''/process_content'' @ b"
    by (auto simp: prefix_def)
  then show False by simp
qed

lemma two_orders:
  assumes "mset t = mset [a, b]"
  shows "t = [a, b] \<or> t = [b, a]"
proof -
  have "size (mset t) = size (mset [a, b])"
    using assms by simp
  then have "length t = Suc (Suc 0)"
    by simp
  then obtain x y where t: "t = [x, y]"
    by (auto simp: length_Suc_conv)
  from assms have "add_mset x {#y#} = add_mset a {#b#}"
    unfolding t by simp
  then have "x = a \<and> y = b \<or> x = b \<and> y = a"
    unfolding add_eq_conv_ex by auto
  with t show ?thesis by auto
qed

text \<open>
  Claim C1. A request whose path begins with \<open>/transcribe\<close> or with
  \<open>/process_content\<close> is forwarded to the origin \<open>http://localhost:8000\<close> with its
  path, query string, method and body unchanged; its headers are unchanged except
  \<open>Host\<close>, which becomes the host of the origin, \<open>localhost:8000\<close>.
\<close>

theorem proxy_forwards:
  assumes "prefix ''/transcribe'' (req_path r) \<or> prefix ''/process_content'' (req_path r)"
  shows "\<exists>out. dispatch (proxy (server config)) r = Forward ''http://localhost:8000'' out
     \<and> req_path out = req_path r \<and> req_query out = req_query r
     \<and> req_method out = req_method r \<and> req_body out = req_body r
     \<and> req_headers out ''Host'' = Some ''localhost:8000''
     \<and> (\<forall>h. h \<noteq> ''Host'' \<longrightarrow> req_headers out h = req_headers r h)"
  using assms by (simp add: dispatch_config)

text \<open>
  The example request, a POST of \<open>/transcribe?lang=en\<close>.
\<close>

theorem proxy_forwards_witness:
  "prefix ''/transcribe'' (req_path example_request)
   \<and> (\<exists>out. dispatch (proxy (server config)) example_request = Forward ''http://localhost:8000'' out
        \<and> req_path out = ''/transcribe'' \<and> req_query out = ''?lang=en''
        \<and> req_method out = ''POST'' \<and> req_body out = ''audio''
        \<and> req_headers out ''Host'' = Some ''localhost:8000''
        \<and> req_headers out ''Content-Type'' = Some ''application/json'')"
proof -
  have h: "prefix ''/transcribe'' (req_path example_request)"
    by (simp add: example_request_def)
  then have "prefix ''/transcribe'' (req_path example_request)
      \<or> prefix ''/process_content'' (req_path example_request)" ..
  from proxy_forwards [OF this] obtain out where
    "dispatch (proxy (server config)) example_request = Forward ''http://localhost:8000'' out"
    "req_path out = req_path example_request" "req_query out = req_query example_request"
    "req_method out = req_method example_request" "req_body out = req_body example_request"
    "req_headers out ''Host'' = Some ''localhost:8000''"
    "req_headers out ''Content-Type'' = req_headers example_request ''Content-Type''"
    by auto
  with h show ?thesis
    by (auto simp: example_request_def)
qed

text \<open>
  Claim C3. A request whose path begins neither with \<open>/transcribe\<close> nor with
  \<open>/process_content\<close> is not forwarded: it falls through to the dev server's own
  handling.
\<close>

theorem proxy_falls_through:
  assumes "\<not> prefix ''/transcribe'' (req_path r)" and "\<not> prefix ''/process_content'' (req_path r)"
  shows "dispatch (proxy (server config)) r = Fallthrough"
  using assms by (simp add: dispatch_config)

text \<open>
  The example request with the path of a source file.
\<close>

theorem proxy_falls_through_witness:
  "\<not> prefix ''/transcribe'' (req_path (example_request\<lparr>req_path := ''/src/main.jsx''\<rparr>))
   \<and> \<not> prefix ''/process_content'' (req_path (example_request\<lparr>req_path := ''/src/main.jsx''\<rparr>))
   \<and> dispatch (proxy (server config)) (example_request\<lparr>req_path := ''/src/main.jsx''\<rparr>) = Fallthrough"
proof -
  have h: "\<not> prefix ''/transcribe'' (req_path (example_request\<lparr>req_path := ''/src/main.jsx''\<rparr>))"
    "\<not> prefix ''/process_content'' (req_path (example_request\<lparr>req_path := ''/src/main.jsx''\<rparr>))"
    by simp_all
  from proxy_falls_through [OF h] h show ?thesis by blast
qed

text \<open>
  Claim C8. A request is forwarded exactly when its path, as a string, begins with one
  of the two keys: no segment boundary is needed (\<open>/transcriber/x\<close> and
  \<open>/process_contents\<close> are forwarded), the comparison is case-sensitive
  (\<open>/Transcribe\<close> falls through) and a key further inside the path does not count
  (\<open>/api/transcribe\<close> falls through).
\<close>

theorem raw_prefix_matching:
  "(dispatch (proxy (server config)) r \<noteq> Fallthrough)
     = (prefix ''/transcribe'' (req_path r) \<or> prefix ''/process_content'' (req_path r))
   \<and> dispatch (proxy (server config)) (r\<lparr>req_path := ''/transcriber/x''\<rparr>)
     = Forward ''http://localhost:8000''
         (r\<lparr>req_path := ''/transcriber/x'',
            req_headers := (req_headers r)(''Host'' \<mapsto> ''localhost:8000'')\<rparr>)
   \<and> dispatch (proxy (server config)) (r\<lparr>req_path := ''/process_contents''\<rparr>)
     = Forward ''http://localhost:8000''
         (r\<lparr>req_path := ''/process_contents'',
            req_headers := (req_headers r)(''Host'' \<mapsto> ''localhost:8000'')\<rparr>)
   \<and> dispatch (proxy (server config)) (r\<lparr>req_path := ''/Transcribe''\<rparr>) = Fallthrough
   \<and> dispatch (proxy (server config)) (r\<lparr>req_path := ''/api/transcribe''\<rparr>) = Fallthrough"
  by (simp add: dispatch_config)

text \<open>
  The keys of the rule table. The table has exactly the two keys \<open>/transcribe\<close> and
  \<open>/process_content\<close>; they are distinct and neither is a prefix of the other, so at
  most one entry matches any path, and the table in any other order handles every
  request the same way. What the dev server does with the table between its start and
  its end is not part of the configuration file and is not stated here.
\<close>

lemma rule_table_disjoint:
  "map fst (proxy (server config)) = [''/transcribe'', ''/process_content'']
   \<and> distinct (map fst (proxy (server config)))
   \<and> \<not> prefix ''/transcribe'' ''/process_content''
   \<and> \<not> prefix ''/process_content'' ''/transcribe''
   \<and> length (matching (proxy (server config)) p) \<le> 1
   \<and> (\<forall>t. mset t = mset (proxy (server config)) \<longrightarrow>
         dispatch t r = dispatch (proxy (server config)) r)"
proof -
  have keys: "map fst (proxy (server config)) = [''/transcribe'', ''/process_content'']"
    by (simp add: config_def)
  have dist: "distinct (map fst (proxy (server config)))"
    unfolding keys by simp
  have apart: "\<not> prefix ''/transcribe'' ''/process_content''"
    "\<not> prefix ''/process_content'' ''/transcribe''"
    by simp_all
  have one: "length (matching (proxy (server config)) p) \<le> 1"
    using keys_apart [of p] by (auto simp: matching_def config_def)
  have order: "\<forall>t. mset t = mset (proxy (server config)) \<longrightarrow>
      dispatch t r = dispatch (proxy (server config)) r"
  proof (intro allI impI)
    fix t
    assume "mset t = mset (proxy (server config))"
    then have "t = proxy (server config) \<or> t = rev (proxy (server config))"
      using two_orders [of t "(''/transcribe'', ''http://localhost:8000'')"
          "(''/process_content'', ''http://localhost:8000'')"]
      by (simp add: config_def)
    then show "dispatch t r = dispatch (proxy (server config)) r"
      using dispatch_config_rev by auto
  qed
  show ?thesis
    by (intro conjI keys dist apart one order)
qed

text \<open>
  The table in reverse order, on the example request.
\<close>

lemma rule_table_disjoint_example:
  "mset (rev (proxy (server config))) = mset (proxy (server config))
   \<and> dispatch (rev (proxy (server config))) example_request
     = dispatch (proxy (server config)) example_request
   \<and> length (matching (proxy (server config)) ''/transcribe'') \<le> 1"
proof -
  have h: "mset (rev (proxy (server config))) = mset (proxy (server config))"
    by simp
  with rule_table_disjoint [of "''/transcribe''" example_request] show ?thesis
    by blast
qed

end
